theory Spec2Isabelle
  imports Main
begin

section \<open>Error taxonomy (platform-api/internal/middleware/error.go)\<close>

text \<open>
  Go's \<^verbatim>\<open>interface{}\<close> values, as far as the program stores, logs or recovers
  them: strings, integers, booleans, the nil interface, and the error value the Go runtime
  raises for a failed type assertion or a nil dereference.
\<close>

datatype any = AString string | AInt int | ABool bool | ANil | ARuntimeError string

text \<open>
  Values of Go's \<^verbatim>\<open>error\<close> interface: a plain error (\<^verbatim>\<open>errors.New\<close>), an error that
  wraps another one (\<^verbatim>\<open>fmt.Errorf\<close> with \<^verbatim>\<open>%w\<close>; the string is its own text), or a
  \<^verbatim>\<open>*AppError\<close>. The struct \<^verbatim>\<open>AppError\<close> has the five fields of the source; a Go map
  is a list of its entries (the nil map and the empty map are both \<open>[]\<close>: the program
  only ever takes their length and marshals them), and the nil \<^verbatim>\<open>error\<close> is \<open>None\<close>.
\<close>

datatype go_error =
    ErrorString string
  | WrapError string go_error
  | AppErr AppError
and AppError =
    AppError (Code: string) (Message: string) (StatusCode: int)
             (Details: "(string \<times> any) list") (Err: "go_error option")

definition StatusBadRequest :: int where "StatusBadRequest = 400"
definition StatusUnauthorized :: int where "StatusUnauthorized = 401"
definition StatusNotFound :: int where "StatusNotFound = 404"
definition StatusConflict :: int where "StatusConflict = 409"
definition StatusInternalServerError :: int where "StatusInternalServerError = 500"

definition NewValidationError :: "string \<Rightarrow> string \<Rightarrow> AppError" where
  "NewValidationError field reason =
     AppError ''VALIDATION_ERROR'' (''Invalid request: '' @ reason) StatusBadRequest
       [(''field'', AString field)] None"

definition NewNotFoundError :: "string \<Rightarrow> AppError" where
  "NewNotFoundError resource =
     AppError ''NOT_FOUND'' (resource @ '' not found'') StatusNotFound [] None"

definition NewConflictError :: "string \<Rightarrow> AppError" where
  "NewConflictError reason = AppError ''CONFLICT'' reason StatusConflict [] None"

definition NewInternalError :: "go_error option \<Rightarrow> AppError" where
  "NewInternalError err =
     AppError ''INTERNAL_ERROR'' ''An internal error occurred'' StatusInternalServerError [] err"

definition NewUnauthorizedError :: "string \<Rightarrow> AppError" where
  "NewUnauthorizedError reason = AppError ''UNAUTHORIZED'' reason StatusUnauthorized [] None"

text \<open>The method \<^verbatim>\<open>Error()\<close>: an \<^verbatim>\<open>AppError\<close> answers with its message.\<close>

fun Error_text :: "go_error \<Rightarrow> string" where
  "Error_text (ErrorString s) = s"
| "Error_text (WrapError s e) = s"
| "Error_text (AppErr a) = Message a"

text \<open>
  \<^verbatim>\<open>errors.As(err, &appErr)\<close> for a target of type \<^verbatim>\<open>*AppError\<close>: the first
  \<^verbatim>\<open>*AppError\<close> on the chain of wrapped errors, if there is one.
\<close>

fun errors_As :: "go_error \<Rightarrow> AppError option" where
  "errors_As (ErrorString s) = None"
| "errors_As (WrapError s e) = errors_As e"
| "errors_As (AppErr a) = Some a"

section \<open>The request context and the libraries the middlewares call\<close>

text \<open>
  A JSON document, as \<^verbatim>\<open>encoding/json\<close> writes it: an object lists its members in the
  order they are written.
\<close>

datatype json =
    JString string
  | JNumber int
  | JBool bool
  | JNull
  | JObject "(string \<times> json) list"

fun json_of_any :: "any \<Rightarrow> json" where
  "json_of_any (AString s) = JString s"
| "json_of_any (AInt i) = JNumber i"
| "json_of_any (ABool b) = JBool b"
| "json_of_any ANil = JNull"
| "json_of_any (ARuntimeError s) = JString s"

text \<open>
  The struct \<^verbatim>\<open>ErrorResponse\<close>. Three of its fields share their names with fields of
  \<^verbatim>\<open>AppError\<close>, so they carry a prime here. Its JSON form follows the struct tags:
  the members in the order of the fields, \<^verbatim>\<open>traceId\<close> and \<^verbatim>\<open>details\<close> left out when empty
  (\<^verbatim>\<open>omitempty\<close>).
\<close>

record ErrorResponse =
  Error :: string
  Message' :: string
  StatusCode' :: int
  TraceID :: string
  Details' :: "(string \<times> any) list"

definition marshal :: "ErrorResponse \<Rightarrow> json" where
  "marshal r = JObject (
     [(''error'', JString (Error r)),
      (''message'', JString (Message' r)),
      (''statusCode'', JNumber (StatusCode' r))]
     @ (if TraceID r = [] then [] else [(''traceId'', JString (TraceID r))])
     @ (if Details' r = [] then []
        else [(''details'', JObject (map (\<lambda>(k, v). (k, json_of_any v)) (Details' r)))]))"

datatype Level = LevelDebug | LevelInfo | LevelWarn | LevelError

text \<open>
  A record handed to a \<^verbatim>\<open>slog\<close> logger: its level, the group of the logger
  (\<^verbatim>\<open>WithGroup\<close>; empty for the default logger), the message and the attributes.
\<close>

record LogRecord =
  level :: Level
  group :: string
  msg :: string
  attrs :: "(string \<times> any) list"

text \<open>
  The state one request works on: the fields of \<^verbatim>\<open>gin.Context\<close> the program reads and
  writes, and the records handed so far to the process-wide logger \<^verbatim>\<open>slog.Default()\<close>.
  \<^item> \<open>Method\<close>, \<open>Path\<close>, \<open>ClientIP\<close>: the request line and what \<^verbatim>\<open>c.ClientIP()\<close> answers;
  \<^item> \<open>ReqHeader\<close>: the header lines of the request, names as the client sent them;
  \<^item> \<open>Keys\<close>: \<^verbatim>\<open>c.Keys\<close>, written by \<^verbatim>\<open>c.Set\<close> and read by \<^verbatim>\<open>c.Get\<close>;
  \<^item> \<open>Errors\<close>: \<^verbatim>\<open>c.Errors\<close>, in the order \<^verbatim>\<open>c.Error\<close> recorded them;
  \<^item> \<open>status\<close>, \<open>written\<close>, \<open>RespHeader\<close>, \<open>body\<close>: gin's response writer
    (\<^verbatim>\<open>c.Writer.Status()\<close>, \<^verbatim>\<open>c.Writer.Written()\<close>, the response headers and the documents
    written to the body, in order).
\<close>

record Context =
  Method :: string
  Path :: string
  ClientIP :: string
  ReqHeader :: "(string \<times> string) list"
  Keys :: "string \<rightharpoonup> any"
  Errors :: "go_error list"
  status :: int
  written :: bool
  RespHeader :: "string \<rightharpoonup> string"
  body :: "json list"
  slog_Default :: "LogRecord list"

text \<open>
  A Go function that works on the context either returns or panics; in both cases what it
  did to the context stays. \<open>(c, None)\<close> is a normal return, \<open>(c, Some v)\<close> a panic
  with value \<open>v\<close> on its way up the stack.
\<close>

type_synonym HandlerFunc = "Context \<Rightarrow> Context \<times> any option"


subsection \<open>Logging (log/slog)\<close>

text \<open>
  \<^verbatim>\<open>RequestLogger(c, name)\<close> is \<^verbatim>\<open>slog.Default().WithGroup(name)\<close>; a call of one of
  its methods hands one record to the default logger. Whether the configured handler
  then prints the record (its minimum level) is not part of this model.
\<close>

definition slog_emit ::
  "Level \<Rightarrow> string \<Rightarrow> string \<Rightarrow> (string \<times> any) list \<Rightarrow> Context \<Rightarrow> Context" where
  "slog_emit lv g m as c =
     c\<lparr>slog_Default := slog_Default c @ [\<lparr>level = lv, group = g, msg = m, attrs = as\<rparr>]\<rparr>"

subsection \<open>gin's response writer and \<^verbatim>\<open>c.JSON\<close>\<close>

text \<open>
  \<^verbatim>\<open>c.Status(code)\<close> is \<^verbatim>\<open>c.Writer.WriteHeader(code)\<close>: gin keeps the new status only
  if it is positive and the response has not been written yet (otherwise it prints the
  warning ``Headers were already written'' and leaves the status as it is).
\<close>

definition WriteHeader :: "int \<Rightarrow> Context \<Rightarrow> Context" where
  "WriteHeader code c =
     (if code > 0 \<and> status c \<noteq> code
      then (if written c then c else c\<lparr>status := code\<rparr>)
      else c)"

text \<open>
  \<^verbatim>\<open>c.Writer.WriteHeaderNow()\<close>: the first write marks the response as written and sends
  the status line through \<^verbatim>\<open>net/http\<close>, which panics on a status outside 100..999.
\<close>

definition WriteHeaderNow :: "Context \<Rightarrow> Context \<times> any option" where
  "WriteHeaderNow c =
     (if written c then (c, None)
      else if status c < 100 \<or> status c > 999
      then (c\<lparr>written := True\<rparr>, Some (AString ''invalid WriteHeader code''))
      else (c\<lparr>written := True\<rparr>, None))"

definition writeContentType :: "Context \<Rightarrow> Context" where
  "writeContentType c =
     (case RespHeader c ''Content-Type'' of
        None \<Rightarrow> c\<lparr>RespHeader := (RespHeader c)(''Content-Type'' \<mapsto> ''application/json; charset=utf-8'')\<rparr>
      | Some v \<Rightarrow> c)"

definition bodyAllowedForStatus :: "int \<Rightarrow> bool" where
  "bodyAllowedForStatus s = (\<not> (100 \<le> s \<and> s \<le> 199) \<and> s \<noteq> 204 \<and> s \<noteq> 304)"

text \<open>
  \<^verbatim>\<open>c.JSON(code, obj)\<close>, that is \<^verbatim>\<open>c.Render(code, render.JSON{obj})\<close>: set the status,
  then either only the headers (a status that allows no body) or the content type and the
  marshalled document. The document is given in its JSON form.
\<close>

definition JSON' :: "int \<Rightarrow> json \<Rightarrow> Context \<Rightarrow> Context \<times> any option" where
  "JSON' code obj c =
     (let c1 = WriteHeader code c in
      if \<not> bodyAllowedForStatus code then WriteHeaderNow (writeContentType c1)
      else (case WriteHeaderNow (writeContentType c1) of
              (c2, Some v) \<Rightarrow> (c2, Some v)
            | (c2, None) \<Rightarrow> (c2\<lparr>body := body c2 @ [obj]\<rparr>, None)))"

text \<open>\<^verbatim>\<open>c.AbortWithStatus(code)\<close>: \<^verbatim>\<open>c.Status(code)\<close>, then \<^verbatim>\<open>WriteHeaderNow\<close>.\<close>

definition AbortWithStatus :: "int \<Rightarrow> Context \<Rightarrow> Context \<times> any option" where
  "AbortWithStatus code c = WriteHeaderNow (WriteHeader code c)"

text \<open>\<^verbatim>\<open>c.Set\<close> and \<^verbatim>\<open>c.Error\<close>.\<close>

definition Set' :: "string \<Rightarrow> any \<Rightarrow> Context \<Rightarrow> Context" where
  "Set' k v c = c\<lparr>Keys := (Keys c)(k \<mapsto> v)\<rparr>"


definition Error' :: "go_error \<Rightarrow> Context \<Rightarrow> Context" where
  "Error' e c = c\<lparr>Errors := Errors c @ [e]\<rparr>"

subsection \<open>Request headers (net/http, net/textproto)\<close>

definition to_upper :: "char \<Rightarrow> char" where
  "to_upper ch =
     (let n = (of_char ch :: nat) in if 97 \<le> n \<and> n \<le> 122 then char_of (n - 32) else ch)"

definition to_lower :: "char \<Rightarrow> char" where
  "to_lower ch =
     (let n = (of_char ch :: nat) in if 65 \<le> n \<and> n \<le> 90 then char_of (n + 32) else ch)"

text \<open>The bytes of an HTTP token: letters, digits and \<^verbatim>\<open>!#$%&'*+-.^_`|~\<close>.\<close>

definition validHeaderFieldByte :: "char \<Rightarrow> bool" where
  "validHeaderFieldByte ch =
     (let n = (of_char ch :: nat) in
      (48 \<le> n \<and> n \<le> 57) \<or> (65 \<le> n \<and> n \<le> 90) \<or> (97 \<le> n \<and> n \<le> 122) \<or>
      n \<in> {33, 35, 36, 37, 38, 39, 42, 43, 45, 46, 94, 95, 96, 124, 126})"

text \<open>
  \<^verbatim>\<open>textproto.CanonicalMIMEHeaderKey\<close>: a name that is not a token is returned as it is;
  otherwise the first letter and every letter after a hyphen are made upper case and all
  others lower case. \<open>canonical upper s\<close> is the loop, \<open>upper\<close> its flag.
\<close>

fun canonical :: "bool \<Rightarrow> string \<Rightarrow> string" where
  "canonical upper [] = []"
| "canonical upper (ch # s) =
     (if upper then to_upper ch else to_lower ch) # canonical (ch = CHR ''-'') s"

definition CanonicalMIMEHeaderKey :: "string \<Rightarrow> string" where
  "CanonicalMIMEHeaderKey s =
     (if list_all validHeaderFieldByte s then canonical True s else s)"

text \<open>
  \<^verbatim>\<open>c.Header(key, value)\<close>: an empty value deletes the response header, any other value
  is set; the response headers too are filed under the canonical form of their names.
\<close>

definition Header :: "string \<Rightarrow> string \<Rightarrow> Context \<Rightarrow> Context" where
  "Header k v c =
     (if v = [] then c\<lparr>RespHeader := (RespHeader c)(CanonicalMIMEHeaderKey k := None)\<rparr>
      else c\<lparr>RespHeader := (RespHeader c)(CanonicalMIMEHeaderKey k \<mapsto> v)\<rparr>)"

text \<open>
  \<^verbatim>\<open>c.GetHeader(key)\<close> is \<^verbatim>\<open>c.Request.Header.Get(key)\<close>. The server files every header
  line it reads under the canonical form of its name, and \<^verbatim>\<open>Get\<close> answers with the first
  value filed under the canonical form of the key, or with the empty string.
\<close>

definition GetHeader :: "Context \<Rightarrow> string \<Rightarrow> string" where
  "GetHeader c key =
     (case filter (\<lambda>(n, v). CanonicalMIMEHeaderKey n = CanonicalMIMEHeaderKey key) (ReqHeader c) of
        [] \<Rightarrow> []
      | (n, v) # rest \<Rightarrow> v)"


section \<open>The error middleware (error.go)\<close>

text \<open>
  \<^verbatim>\<open>getTraceID\<close>: the type assertion \<^verbatim>\<open>traceID.(string)\<close> is unchecked, so a value
  under the key that is not a string makes the function panic.
\<close>

definition getTraceID :: "Context \<Rightarrow> any + string" where
  "getTraceID c =
     (case Keys c ''traceId'' of
        Some traceID \<Rightarrow>
          (case traceID of
             AString s \<Rightarrow> Inr s
           | _ \<Rightarrow> Inl (ARuntimeError ''interface conversion: interface {} is not string''))
      | None \<Rightarrow> Inr [])"

text \<open>
  \<^verbatim>\<open>handleError\<close>. \<^verbatim>\<open>c.Errors.Last()\<close> is nil when no error was recorded, and reading
  its field then panics. The arguments of \<^verbatim>\<open>c.JSON\<close> are evaluated, and may panic, after
  the record has been logged.
\<close>

definition handleError :: "Context \<Rightarrow> Context \<times> any option" where
  "handleError c =
     (case Errors c of
        [] \<Rightarrow> (c, Some (ARuntimeError ''invalid memory address or nil pointer dereference''))
      | _ # _ \<Rightarrow>
          (let lastErr = last (Errors c) in
           case errors_As lastErr of
             Some appErr \<Rightarrow>
               (let c1 = slog_emit LevelWarn ''error_handler'' ''application error''
                           [(''code'', AString (Code appErr)),
                            (''message'', AString (Message appErr)),
                            (''statusCode'', AInt (StatusCode appErr))] c
                in case getTraceID c1 of
                     Inl v \<Rightarrow> (c1, Some v)
                   | Inr t \<Rightarrow>
                       JSON' (StatusCode appErr)
                         (marshal \<lparr>Error = Code appErr, Message' = Message appErr,
                                   StatusCode' = StatusCode appErr, TraceID = t,
                                   Details' = Details appErr\<rparr>) c1)
           | None \<Rightarrow>
               (let c1 = slog_emit LevelError ''error_handler'' ''unknown error''
                           [(''error'', AString (Error_text lastErr))] c
                in case getTraceID c1 of
                     Inl v \<Rightarrow> (c1, Some v)
                   | Inr t \<Rightarrow>
                       JSON' StatusInternalServerError
                         (marshal \<lparr>Error = ''INTERNAL_ERROR'',
                                   Message' = ''An unexpected error occurred'',
                                   StatusCode' = StatusInternalServerError, TraceID = t,
                                   Details' = []\<rparr>) c1)))"

text \<open>
  \<^verbatim>\<open>ErrorHandlerMiddleware\<close>. \<open>next\<close> is the rest of the chain, run by \<^verbatim>\<open>c.Next()\<close>.
  The deferred function runs when the body returns or panics; \<^verbatim>\<open>recover()\<close> answers
  with the value of a panic of \<^verbatim>\<open>c.Next()\<close> or of \<^verbatim>\<open>handleError\<close>. A panic inside the
  deferred function itself is not recovered here and leaves the middleware.
\<close>

definition ErrorHandlerMiddleware :: "HandlerFunc \<Rightarrow> HandlerFunc" where
  "ErrorHandlerMiddleware next c =
     (let (c1, p1) = next c;
          (c2, p2) = (case p1 of
                        Some v \<Rightarrow> (c1, Some v)
                      | None \<Rightarrow> if length (Errors c1) > 0 then handleError c1 else (c1, None))
      in case p2 of
           None \<Rightarrow> (c2, None)
         | Some r \<Rightarrow>
             (let c3 = slog_emit LevelError ''error_handler'' ''panic recovered'' [(''panic'', r)] c2
              in case getTraceID c3 of
                   Inl v \<Rightarrow> (c3, Some v)
                 | Inr t \<Rightarrow>
                     JSON' StatusInternalServerError
                       (marshal \<lparr>Error = ''INTERNAL_ERROR'',
                                 Message' = ''An unexpected error occurred'',
                                 StatusCode' = StatusInternalServerError, TraceID = t,
                                 Details' = []\<rparr>) c3))"

section \<open>The request logging middleware and the router (package main)\<close>

definition charset :: string where
  "charset = ''abcdefghijklmnopqrstuvwxyzABCDEFGHIJKLMNOPQRSTUVWXYZ0123456789''"

text \<open>
  What the clock answers during one request. \<open>UnixNano i\<close> is the reading
  \<^verbatim>\<open>time.Now().UnixNano()\<close> in round \<open>i\<close> of the loop of \<^verbatim>\<open>randomString\<close>, and
  \<open>Since\<close> the nanoseconds \<^verbatim>\<open>time.Since(start)\<close> measures when the chain has returned.
  Both are natural numbers: the wall clock is taken to be set to a time between 1970 and
  2262, where \<^verbatim>\<open>UnixNano\<close> is a non-negative \<^verbatim>\<open>int64\<close>, and the monotonic clock does not
  run backwards. On these values Go's \<^verbatim>\<open>%\<close> and \<^verbatim>\<open>/\<close> are \<open>mod\<close> and \<open>div\<close>.
\<close>

record Clock =
  UnixNano :: "nat \<Rightarrow> nat"
  Since :: nat

text \<open>
  \<^verbatim>\<open>randomString\<close>: one byte of \<^verbatim>\<open>charset\<close> for each index \<open>i\<close> of \<^verbatim>\<open>b\<close>, chosen by
  the clock reading of that round.
\<close>

fun randomString_loop :: "(nat \<Rightarrow> nat) \<Rightarrow> nat list \<Rightarrow> string" where
  "randomString_loop now [] = []"
| "randomString_loop now (i # is) =
     charset ! (now i mod length charset) # randomString_loop now is"

definition randomString :: "(nat \<Rightarrow> nat) \<Rightarrow> nat \<Rightarrow> string" where
  "randomString now length' = randomString_loop now [0..<length']"

text \<open>
  \<^verbatim>\<open>requestLoggingMiddleware\<close>. It has no deferred function: when \<^verbatim>\<open>c.Next()\<close> panics,
  the panic passes through and the statements after \<^verbatim>\<open>c.Next()\<close> do not run.
\<close>

definition requestLoggingMiddleware :: "Clock \<Rightarrow> HandlerFunc \<Rightarrow> HandlerFunc" where
  "requestLoggingMiddleware clk next c =
     (let traceID0 = GetHeader c ''X-Trace-ID'';
          traceID = (if traceID0 = [] then randomString (UnixNano clk) 16 else traceID0);
          c1 = Set' ''traceId'' (AString traceID) c;
          c2 = Header ''X-Trace-ID'' traceID c1;
          (c3, p) = next c2
      in case p of
           Some v \<Rightarrow> (c3, Some v)
         | None \<Rightarrow>
             (slog_emit LevelInfo [] ''HTTP request''
                [(''method'', AString (Method c3)),
                 (''path'', AString (Path c3)),
                 (''status'', AInt (status c3)),
                 (''duration_ms'', AInt (int (Since clk div 1000000))),
                 (''trace_id'', AString traceID),
                 (''ip'', AString (ClientIP c3))] c3, None))"

text \<open>
  The recovery middleware that \<^verbatim>\<open>gin.Default()\<close> installs: it answers a panic with
  \<^verbatim>\<open>c.AbortWithStatus(500)\<close>. (It reports to gin's own writer, not to \<^verbatim>\<open>slog\<close>, and so
  does gin's logger, which is left out.)
\<close>

definition gin_Recovery :: "HandlerFunc \<Rightarrow> HandlerFunc" where
  "gin_Recovery next c =
     (case next c of
        (c1, None) \<Rightarrow> (c1, None)
      | (c1, Some v) \<Rightarrow> AbortWithStatus StatusInternalServerError c1)"

text \<open>
  The chain \<^verbatim>\<open>main\<close> builds for a route with handler \<open>h\<close>: \<^verbatim>\<open>gin.Default()\<close>, then the
  error middleware, then the request logging middleware.
\<close>

definition router :: "Clock \<Rightarrow> HandlerFunc \<Rightarrow> HandlerFunc" where
  "router clk h = gin_Recovery (ErrorHandlerMiddleware (requestLoggingMiddleware clk h))"

text \<open>A request as it arrives, and the context gin starts it with.\<close>

record Request =
  req_Method :: string
  req_Path :: string
  req_RemoteIP :: string
  req_Header :: "(string \<times> string) list"

definition new_Context :: "Request \<Rightarrow> LogRecord list \<Rightarrow> Context" where
  "new_Context r lg =
     \<lparr>Method = req_Method r, Path = req_Path r, ClientIP = req_RemoteIP r,
      ReqHeader = req_Header r, Keys = Map.empty, Errors = [], status = 200,
      written = False, RespHeader = Map.empty, body = [], slog_Default = lg\<rparr>"



section \<open>Observations\<close>

text \<open>
  Two stages of \<^verbatim>\<open>requestLoggingMiddleware\<close>, named so that properties can speak of them:
  \<open>traceID_of\<close> is the value of its variable \<^verbatim>\<open>traceID\<close> once it has been assigned, and
  \<open>before_Next\<close> the context at the moment it calls \<^verbatim>\<open>c.Next()\<close>.
\<close>

definition traceID_of :: "Clock \<Rightarrow> Context \<Rightarrow> string" where
  "traceID_of clk c =
     (if GetHeader c ''X-Trace-ID'' = [] then randomString (UnixNano clk) 16
      else GetHeader c ''X-Trace-ID'')"

definition before_Next :: "Clock \<Rightarrow> Context \<Rightarrow> Context" where
  "before_Next clk c =
     Header ''X-Trace-ID'' (traceID_of clk c) (Set' ''traceId'' (AString (traceID_of clk c)) c)"

text \<open>The member of a JSON object under a name, and the letters and digits of ASCII.\<close>

fun json_member :: "string \<Rightarrow> json \<Rightarrow> json option" where
  "json_member k (JObject ms) = map_of ms k"
| "json_member k j = None"


section \<open>Sample requests and handlers\<close>

text \<open>
  Concrete inputs for the properties below: two requests, one clock, the handler of
  \<^verbatim>\<open>/api/v1/status\<close> from \<^verbatim>\<open>main\<close>, and handlers that fail in the ways the error
  middleware is there for.
\<close>

definition traced_Request :: Request where
  "traced_Request =
     \<lparr>req_Method = ''GET'', req_Path = ''/api/v1/widgets/7'', req_RemoteIP = ''10.0.0.9'',
      req_Header = [(''Accept'', ''*/*''), (''x-trace-id'', ''abc123'')]\<rparr>"

definition plain_Request :: Request where
  "plain_Request =
     \<lparr>req_Method = ''GET'', req_Path = ''/api/v1/status'', req_RemoteIP = ''10.0.0.9'',
      req_Header = [(''Accept'', ''*/*'')]\<rparr>"

definition sample_Clock :: Clock where
  "sample_Clock = \<lparr>UnixNano = (\<lambda>i. 1000 + 37 * i), Since = 2500000\<rparr>"

text \<open>
  The contexts the handler of a route meets: \<open>traced_Context\<close> for the request with the
  header, \<open>fresh_Context\<close> for the one without, both with nothing logged so far.
\<close>

definition traced_Context :: Context where
  "traced_Context = before_Next sample_Clock (new_Context traced_Request [])"

definition fresh_Context :: Context where
  "fresh_Context = before_Next sample_Clock (new_Context plain_Request [])"

definition status_handler :: HandlerFunc where
  "status_handler c =
     JSON' 200 (JObject [(''service'', JString ''platform-api''), (''version'', JString ''1.0.0'')]) c"

definition panicking_handler :: HandlerFunc where
  "panicking_handler c = (c, Some (AString ''boom''))"


definition not_found_handler :: HandlerFunc where
  "not_found_handler c = (Error' (AppErr (NewNotFoundError ''widget'')) c, None)"





definition two_errors_handler :: HandlerFunc where
  "two_errors_handler c =
     (Error' (AppErr (NewConflictError ''name taken''))
        (Error' (AppErr (NewNotFoundError ''widget'')) c), None)"





section \<open>The error taxonomy: what the factories build\<close>

lemmas http_status_defs =
  StatusBadRequest_def StatusUnauthorized_def StatusNotFound_def StatusConflict_def
  StatusInternalServerError_def

lemmas factory_defs =
  NewValidationError_def NewNotFoundError_def NewConflictError_def NewInternalError_def
  NewUnauthorizedError_def

text \<open>
  Claim C4, as stated, asks every factory for a non-empty message whatever the argument.
  \<^verbatim>\<open>NewConflictError\<close> hands the reason on as the message, so the empty reason gives an
  empty message.
\<close>

theorem C4_empty_message_counterexample:
  "Message (NewConflictError []) = []"
  by (simp add: NewConflictError_def)

text \<open>
  Claim C4, amended. Every error a factory builds has a non-empty code, and a status that
  is a 4xx or 5xx value and goes with the code: \<^verbatim>\<open>VALIDATION_ERROR\<close> with 400,
  \<^verbatim>\<open>NOT_FOUND\<close> with 404, \<^verbatim>\<open>CONFLICT\<close> with 409, \<^verbatim>\<open>UNAUTHORIZED\<close> with 401 and
  \<^verbatim>\<open>INTERNAL_ERROR\<close> with 500, for every argument. The message is non-empty for
  \<^verbatim>\<open>NewValidationError\<close>, \<^verbatim>\<open>NewNotFoundError\<close> and \<^verbatim>\<open>NewInternalError\<close>;
  \<^verbatim>\<open>NewConflictError\<close> and \<^verbatim>\<open>NewUnauthorizedError\<close> use the reason as the message,
  which is therefore empty exactly when the reason is.
\<close>

theorem C4_factory_invariant:
  "(Code (NewValidationError field reason) = ''VALIDATION_ERROR''
      \<and> StatusCode (NewValidationError field reason) = 400
      \<and> Message (NewValidationError field reason) \<noteq> [])
   \<and> (Code (NewNotFoundError resource) = ''NOT_FOUND''
      \<and> StatusCode (NewNotFoundError resource) = 404
      \<and> Message (NewNotFoundError resource) \<noteq> [])
   \<and> (Code (NewConflictError reason) = ''CONFLICT''
      \<and> StatusCode (NewConflictError reason) = 409
      \<and> (Message (NewConflictError reason) = []) = (reason = []))
   \<and> (Code (NewUnauthorizedError reason) = ''UNAUTHORIZED''
      \<and> StatusCode (NewUnauthorizedError reason) = 401
      \<and> (Message (NewUnauthorizedError reason) = []) = (reason = []))
   \<and> (Code (NewInternalError err) = ''INTERNAL_ERROR''
      \<and> StatusCode (NewInternalError err) = 500
      \<and> Message (NewInternalError err) \<noteq> [])
   \<and> (\<forall>a \<in> {NewValidationError field reason, NewNotFoundError resource,
               NewConflictError reason, NewUnauthorizedError reason, NewInternalError err}.
         Code a \<noteq> [] \<and> 400 \<le> StatusCode a \<and> StatusCode a \<le> 599)"
  by (simp add: factory_defs http_status_defs)

theorem C4_factory_invariant_witness:
  "Code (NewConflictError ''name taken'') = ''CONFLICT''
   \<and> StatusCode (NewConflictError ''name taken'') = 409
   \<and> Message (NewConflictError ''name taken'') \<noteq> []
   \<and> Message (NewNotFoundError []) \<noteq> []
   \<and> 400 \<le> StatusCode (NewInternalError None) \<and> StatusCode (NewInternalError None) \<le> 599"
  using C4_factory_invariant [where field = "[]" and reason = "''name taken''"
      and resource = "[]" and err = None]
  by simp

text \<open>
  Claim C5. Each factory returns the documented code, status and payload:
  \<^verbatim>\<open>NewValidationError\<close> gives \<^verbatim>\<open>VALIDATION_ERROR\<close>, 400 and details holding the field;
  \<^verbatim>\<open>NewNotFoundError\<close> gives \<^verbatim>\<open>NOT_FOUND\<close>, 404 and the message
  ``\<open>resource\<close> not found''; \<^verbatim>\<open>NewConflictError\<close> gives \<^verbatim>\<open>CONFLICT\<close> and 409;
  \<^verbatim>\<open>NewUnauthorizedError\<close> gives \<^verbatim>\<open>UNAUTHORIZED\<close> and 401; \<^verbatim>\<open>NewInternalError\<close> gives
  \<^verbatim>\<open>INTERNAL_ERROR\<close>, 500 and a fixed message, and keeps the cause in the field \<^verbatim>\<open>Err\<close>
  only, which is no part of the envelope \<^verbatim>\<open>handleError\<close> marshals.
\<close>

theorem C5_factories:
  "NewValidationError field reason =
     AppError ''VALIDATION_ERROR'' (''Invalid request: '' @ reason) 400
       [(''field'', AString field)] None
   \<and> NewNotFoundError resource = AppError ''NOT_FOUND'' (resource @ '' not found'') 404 [] None
   \<and> Message (NewNotFoundError ''widget'') = ''widget not found''
   \<and> NewConflictError reason = AppError ''CONFLICT'' reason 409 [] None
   \<and> NewUnauthorizedError reason = AppError ''UNAUTHORIZED'' reason 401 [] None
   \<and> NewInternalError cause =
       AppError ''INTERNAL_ERROR'' ''An internal error occurred'' 500 [] cause
   \<and> marshal \<lparr>Error = Code (NewInternalError cause), Message' = Message (NewInternalError cause),
               StatusCode' = StatusCode (NewInternalError cause), TraceID = t,
               Details' = Details (NewInternalError cause)\<rparr>
     = marshal \<lparr>Error = ''INTERNAL_ERROR'', Message' = ''An internal error occurred'',
                 StatusCode' = 500, TraceID = t, Details' = []\<rparr>"
  by (simp add: factory_defs http_status_defs)

theorem C5_factories_witness:
  "NewNotFoundError ''widget'' = AppError ''NOT_FOUND'' ''widget not found'' 404 [] None
   \<and> Details (NewValidationError ''email'' ''must not be empty'') = [(''field'', AString ''email'')]
   \<and> Err (NewInternalError (Some (ErrorString ''disk full''))) = Some (ErrorString ''disk full'')"
  using C5_factories [where field = "''email''" and reason = "''must not be empty''"
      and resource = "''widget''" and cause = "Some (ErrorString ''disk full'')" and t = "[]"]
  by simp


section \<open>What the library calls do\<close>

lemma JSON'_500:
  "JSON' 500 obj c =
     ((writeContentType c)\<lparr>status := (if written c then status c else 500), written := True,
        body := body c @ [obj]\<rparr>, None)"
  by (auto simp: JSON'_def WriteHeader_def WriteHeaderNow_def writeContentType_def
      bodyAllowedForStatus_def Let_def split: option.splits)

lemma JSON'_sendable:
  assumes "\<not> written c" "200 \<le> code" "code \<le> 999" "code \<noteq> 204" "code \<noteq> 304"
  shows "JSON' code obj c =
     ((writeContentType c)\<lparr>status := code, written := True, body := body c @ [obj]\<rparr>, None)"
  using assms
  by (auto simp: JSON'_def WriteHeader_def WriteHeaderNow_def writeContentType_def
      bodyAllowedForStatus_def Let_def split: option.splits)

lemma writeContentType_proj [simp]:
  "status (writeContentType c) = status c"
  "written (writeContentType c) = written c"
  "body (writeContentType c) = body c"
  "Keys (writeContentType c) = Keys c"
  "Errors (writeContentType c) = Errors c"
  "slog_Default (writeContentType c) = slog_Default c"
  by (simp_all add: writeContentType_def split: option.splits)

lemma slog_emit_proj [simp]:
  "status (slog_emit lv g m as c) = status c"
  "written (slog_emit lv g m as c) = written c"
  "body (slog_emit lv g m as c) = body c"
  "Keys (slog_emit lv g m as c) = Keys c"
  "Errors (slog_emit lv g m as c) = Errors c"
  "RespHeader (slog_emit lv g m as c) = RespHeader c"
  "slog_Default (slog_emit lv g m as c) =
     slog_Default c @ [\<lparr>level = lv, group = g, msg = m, attrs = as\<rparr>]"
  by (simp_all add: slog_emit_def)

lemma getTraceID_slog_emit [simp]: "getTraceID (slog_emit lv g m as c) = getTraceID c"
  by (simp add: getTraceID_def)




section \<open>The paths through the error middleware\<close>

lemma recovered:
  assumes "next c = (c', Some v)" and "getTraceID c' = Inr t"
  shows "ErrorHandlerMiddleware next c =
     JSON' StatusInternalServerError
       (marshal \<lparr>Error = ''INTERNAL_ERROR'', Message' = ''An unexpected error occurred'',
                 StatusCode' = StatusInternalServerError, TraceID = t, Details' = []\<rparr>)
       (slog_emit LevelError ''error_handler'' ''panic recovered'' [(''panic'', v)] c')"
  using assms by (simp add: ErrorHandlerMiddleware_def)

lemma handleError_unknown:
  assumes "Errors c \<noteq> []" and "errors_As (last (Errors c)) = None" and "getTraceID c = Inr t"
  shows "handleError c =
     JSON' StatusInternalServerError
       (marshal \<lparr>Error = ''INTERNAL_ERROR'', Message' = ''An unexpected error occurred'',
                 StatusCode' = StatusInternalServerError, TraceID = t, Details' = []\<rparr>)
       (slog_emit LevelError ''error_handler'' ''unknown error''
          [(''error'', AString (Error_text (last (Errors c))))] c)"
  using assms by (cases "Errors c") (simp_all add: handleError_def del: last.simps)

lemma handleError_app:
  assumes "Errors c \<noteq> []" and "errors_As (last (Errors c)) = Some a" and "getTraceID c = Inr t"
  shows "handleError c =
     JSON' (StatusCode a)
       (marshal \<lparr>Error = Code a, Message' = Message a, StatusCode' = StatusCode a,
                 TraceID = t, Details' = Details a\<rparr>)
       (slog_emit LevelWarn ''error_handler'' ''application error''
          [(''code'', AString (Code a)), (''message'', AString (Message a)),
           (''statusCode'', AInt (StatusCode a))] c)"
  using assms by (cases "Errors c") (simp_all add: handleError_def del: last.simps)

lemma returned_with_errors:
  assumes "next c = (c', None)" and "Errors c' \<noteq> []" and "snd (handleError c') = None"
  shows "ErrorHandlerMiddleware next c = handleError c'"
  using assms by (cases "handleError c'") (simp add: ErrorHandlerMiddleware_def)

lemma WriteHeader_Errors:
  "WriteHeader code (c\<lparr>Errors := es\<rparr>) = (WriteHeader code c)\<lparr>Errors := es\<rparr>"
  by (simp add: WriteHeader_def)

lemma writeContentType_Errors:
  "writeContentType (c\<lparr>Errors := es\<rparr>) = (writeContentType c)\<lparr>Errors := es\<rparr>"
  by (simp add: writeContentType_def split: option.splits)

lemma WriteHeaderNow_Errors:
  "WriteHeaderNow (c\<lparr>Errors := es\<rparr>) =
     (case WriteHeaderNow c of (d, p) \<Rightarrow> (d\<lparr>Errors := es\<rparr>, p))"
  by (simp add: WriteHeaderNow_def)

lemma JSON'_Errors:
  "JSON' code obj (c\<lparr>Errors := es\<rparr>) =
     (case JSON' code obj c of (d, p) \<Rightarrow> (d\<lparr>Errors := es\<rparr>, p))"
proof (cases "WriteHeaderNow (writeContentType (WriteHeader code c))")
  case (Pair d p)
  then show ?thesis
    by (cases p)
      (simp_all add: JSON'_def Let_def WriteHeader_Errors writeContentType_Errors
        WriteHeaderNow_Errors)
qed


lemma handleError_nonempty:
  assumes "Errors c \<noteq> []"
  shows "handleError c =
     (case errors_As (last (Errors c)) of
        Some a \<Rightarrow>
          (case getTraceID c of
             Inl v \<Rightarrow>
               (slog_emit LevelWarn ''error_handler'' ''application error''
                  [(''code'', AString (Code a)), (''message'', AString (Message a)),
                   (''statusCode'', AInt (StatusCode a))] c, Some v)
           | Inr t \<Rightarrow>
               JSON' (StatusCode a)
                 (marshal \<lparr>Error = Code a, Message' = Message a, StatusCode' = StatusCode a,
                           TraceID = t, Details' = Details a\<rparr>)
                 (slog_emit LevelWarn ''error_handler'' ''application error''
                    [(''code'', AString (Code a)), (''message'', AString (Message a)),
                     (''statusCode'', AInt (StatusCode a))] c))
      | None \<Rightarrow>
          (case getTraceID c of
             Inl v \<Rightarrow>
               (slog_emit LevelError ''error_handler'' ''unknown error''
                  [(''error'', AString (Error_text (last (Errors c))))] c, Some v)
           | Inr t \<Rightarrow>
               JSON' StatusInternalServerError
                 (marshal \<lparr>Error = ''INTERNAL_ERROR'',
                           Message' = ''An unexpected error occurred'',
                           StatusCode' = StatusInternalServerError, TraceID = t,
                           Details' = []\<rparr>)
                 (slog_emit LevelError ''error_handler'' ''unknown error''
                    [(''error'', AString (Error_text (last (Errors c))))] c)))"
proof (cases "Errors c")
  case Nil
  with assms show ?thesis by simp
next
  case (Cons e es)
  then have "handleError c =
     (let lastErr = last (Errors c) in
           case errors_As lastErr of
             Some appErr \<Rightarrow>
               (let c1 = slog_emit LevelWarn ''error_handler'' ''application error''
                           [(''code'', AString (Code appErr)),
                            (''message'', AString (Message appErr)),
                            (''statusCode'', AInt (StatusCode appErr))] c
                in case getTraceID c1 of
                     Inl v \<Rightarrow> (c1, Some v)
                   | Inr t \<Rightarrow>
                       JSON' (StatusCode appErr)
                         (marshal \<lparr>Error = Code appErr, Message' = Message appErr,
                                   StatusCode' = StatusCode appErr, TraceID = t,
                                   Details' = Details appErr\<rparr>) c1)
           | None \<Rightarrow>
               (let c1 = slog_emit LevelError ''error_handler'' ''unknown error''
                           [(''error'', AString (Error_text lastErr))] c
                in case getTraceID c1 of
                     Inl v \<Rightarrow> (c1, Some v)
                   | Inr t \<Rightarrow>
                       JSON' StatusInternalServerError
                         (marshal \<lparr>Error = ''INTERNAL_ERROR'',
                                   Message' = ''An unexpected error occurred'',
                                   StatusCode' = StatusInternalServerError, TraceID = t,
                                   Details' = []\<rparr>) c1))"
    unfolding handleError_def by (simp only: list.case)
  then show ?thesis
    by (simp add: Let_def split: option.splits)
qed

lemma slog_emit_Errors:
  "slog_emit lv g m as (c\<lparr>Errors := xs\<rparr>) = (slog_emit lv g m as c)\<lparr>Errors := xs\<rparr>"
  by (simp add: slog_emit_def)

lemma getTraceID_Errors: "getTraceID (c\<lparr>Errors := xs\<rparr>) = getTraceID c"
  by (simp add: getTraceID_def)

lemma handleError_last:
  assumes "es \<noteq> []"
  shows "handleError (c\<lparr>Errors := es\<rparr>) =
     (case handleError (c\<lparr>Errors := [last es]\<rparr>) of (d, p) \<Rightarrow> (d\<lparr>Errors := es\<rparr>, p))"
proof -
  have 1: "Errors (c\<lparr>Errors := es\<rparr>) \<noteq> []" using assms by simp
  have 2: "Errors (c\<lparr>Errors := [last es]\<rparr>) \<noteq> []" by simp
  show ?thesis
    unfolding handleError_nonempty [OF 1] handleError_nonempty [OF 2]
    by (cases "errors_As (last es)"; cases "getTraceID c")
      (simp_all add: getTraceID_Errors slog_emit_Errors JSON'_Errors split: prod.splits)
qed

lemma marshal_members:
  "json_member ''error'' (marshal r) = Some (JString (Error r))"
  "json_member ''message'' (marshal r) = Some (JString (Message' r))"
  "json_member ''statusCode'' (marshal r) = Some (JNumber (StatusCode' r))"
  "json_member ''traceId'' (marshal r) =
     (if TraceID r = [] then None else Some (JString (TraceID r)))"
  "json_member ''details'' (marshal r) =
     (if Details' r = [] then None
      else Some (JObject (map (\<lambda>(k, v). (k, json_of_any v)) (Details' r))))"
  by (simp_all add: marshal_def)

section \<open>Evaluating the samples\<close>

lemmas char_eval =
  CanonicalMIMEHeaderKey_def validHeaderFieldByte_def to_upper_def to_lower_def char_of_def
  bit_Suc_0_iff

lemma canonical_trace_key: "CanonicalMIMEHeaderKey ''X-Trace-ID'' = ''X-Trace-Id''"
  by (simp add: char_eval)

lemma canonical_samples:
  "CanonicalMIMEHeaderKey ''x-trace-id'' = ''X-Trace-Id''"
  "CanonicalMIMEHeaderKey ''Accept'' = ''Accept''"
  by (simp_all add: char_eval)

lemma traceID_of_traced: "traceID_of sample_Clock (new_Context traced_Request []) = ''abc123''"
  by (simp add: traceID_of_def GetHeader_def new_Context_def traced_Request_def
      canonical_trace_key canonical_samples)



lemma traced_Context_eq:
  "traced_Context =
     \<lparr>Method = ''GET'', Path = ''/api/v1/widgets/7'', ClientIP = ''10.0.0.9'',
      ReqHeader = [(''Accept'', ''*/*''), (''x-trace-id'', ''abc123'')],
      Keys = [''traceId'' \<mapsto> AString ''abc123''], Errors = [], status = 200,
      written = False, RespHeader = [''X-Trace-Id'' \<mapsto> ''abc123''], body = [],
      slog_Default = []\<rparr>"
  by (simp add: traced_Context_def before_Next_def traceID_of_traced Header_def Set'_def
      canonical_trace_key) (simp add: new_Context_def traced_Request_def)


lemmas run_defs =
  ErrorHandlerMiddleware_def handleError_def JSON'_def WriteHeader_def WriteHeaderNow_def
  writeContentType_def bodyAllowedForStatus_def getTraceID_def slog_emit_def marshal_def
  Error'_def http_status_defs factory_defs status_handler_def

section \<open>Panics (claim C1)\<close>




section \<open>Errors that are no application errors (claim C2)\<close>




section \<open>Application errors (claim C3)\<close>




section \<open>What the calls leave alone\<close>

lemma WriteHeaderNow_frame:
  "Keys (fst (WriteHeaderNow c)) = Keys c"
  "Errors (fst (WriteHeaderNow c)) = Errors c"
  "slog_Default (fst (WriteHeaderNow c)) = slog_Default c"
  "RespHeader (fst (WriteHeaderNow c)) = RespHeader c"
  "body (fst (WriteHeaderNow c)) = body c"
  "written (fst (WriteHeaderNow c))"
  by (simp_all add: WriteHeaderNow_def)

lemma WriteHeader_frame:
  "Keys (WriteHeader code c) = Keys c"
  "Errors (WriteHeader code c) = Errors c"
  "slog_Default (WriteHeader code c) = slog_Default c"
  "RespHeader (WriteHeader code c) = RespHeader c"
  "body (WriteHeader code c) = body c"
  "written (WriteHeader code c) = written c"
  by (simp_all add: WriteHeader_def)

lemma writeContentType_RespHeader:
  "k \<noteq> ''Content-Type'' \<Longrightarrow> RespHeader (writeContentType c) k = RespHeader c k"
  by (simp add: writeContentType_def split: option.splits)

lemma JSON'_frame:
  "Keys (fst (JSON' code obj c)) = Keys c"
  "Errors (fst (JSON' code obj c)) = Errors c"
  "slog_Default (fst (JSON' code obj c)) = slog_Default c"
  "written (fst (JSON' code obj c))"
  "k \<noteq> ''Content-Type'' \<Longrightarrow> RespHeader (fst (JSON' code obj c)) k = RespHeader c k"
proof -
  obtain d p where w: "WriteHeaderNow (writeContentType (WriteHeader code c)) = (d, p)"
    by (cases "WriteHeaderNow (writeContentType (WriteHeader code c))")
  have d: "Keys d = Keys c" "Errors d = Errors c" "slog_Default d = slog_Default c" "written d"
    "k \<noteq> ''Content-Type'' \<Longrightarrow> RespHeader d k = RespHeader c k"
    using WriteHeaderNow_frame [of "writeContentType (WriteHeader code c)"] w
    by (simp_all add: WriteHeader_frame writeContentType_RespHeader)
  show "Keys (fst (JSON' code obj c)) = Keys c" "Errors (fst (JSON' code obj c)) = Errors c"
    "slog_Default (fst (JSON' code obj c)) = slog_Default c" "written (fst (JSON' code obj c))"
    "k \<noteq> ''Content-Type'' \<Longrightarrow> RespHeader (fst (JSON' code obj c)) k = RespHeader c k"
    using w d by (cases p; simp add: JSON'_def Let_def)+
qed


lemma getTraceID_Keys: "Keys c1 = Keys c2 \<Longrightarrow> getTraceID c1 = getTraceID c2"
  by (simp add: getTraceID_def)

lemma handleError_Keys: "Keys (fst (handleError c)) = Keys c"
proof (cases "Errors c")
  case Nil
  then show ?thesis by (simp add: handleError_def)
next
  case (Cons e es)
  then have "Errors c \<noteq> []" by simp
  then show ?thesis
    by (cases "errors_As (last (Errors c))"; cases "getTraceID c")
      (simp_all add: handleError_nonempty JSON'_frame)
qed

lemma recovery_Keys:
  "Keys (fst (ErrorHandlerMiddleware (\<lambda>x. (d, Some r)) c)) = Keys d"
  by (cases "getTraceID d") (simp_all add: ErrorHandlerMiddleware_def JSON'_frame)

lemma ErrorHandlerMiddleware_link:
  assumes "next c = (c', None)" and "Errors c' \<noteq> []"
  shows "ErrorHandlerMiddleware next c =
     (case handleError c' of
        (d, None) \<Rightarrow> (d, None)
      | (d, Some r) \<Rightarrow> ErrorHandlerMiddleware (\<lambda>x. (d, Some r)) c)"
proof -
  obtain d p where h: "handleError c' = (d, p)" by (cases "handleError c'")
  with assms show ?thesis
    by (cases p) (simp_all add: ErrorHandlerMiddleware_def)
qed

lemma ErrorHandlerMiddleware_Keys:
  "Keys (fst (ErrorHandlerMiddleware next c)) = Keys (fst (next c))"
proof -
  obtain c' p where n: "next c = (c', p)" by (cases "next c")
  show ?thesis
  proof (cases p)
    case (Some v)
    with n have "ErrorHandlerMiddleware next c = ErrorHandlerMiddleware (\<lambda>x. (c', Some v)) c"
      by (simp add: ErrorHandlerMiddleware_def)
    with n show ?thesis by (simp add: recovery_Keys)
  next
    case None
    show ?thesis
    proof (cases "Errors c' = []")
      case True
      with n None show ?thesis by (simp add: ErrorHandlerMiddleware_def)
    next
      case False
      obtain d r where h: "handleError c' = (d, r)" by (cases "handleError c'")
      with handleError_Keys [of c'] have d: "Keys d = Keys c'" by simp
      from n None False h show ?thesis
        using ErrorHandlerMiddleware_link [of "next" c c'] d
        by (cases r) (simp_all add: recovery_Keys)
    qed
  qed
qed

lemma recovery_Errors:
  "ErrorHandlerMiddleware (\<lambda>x. (d\<lparr>Errors := es\<rparr>, Some r)) c =
     (case ErrorHandlerMiddleware (\<lambda>x. (d, Some r)) c of (e, p) \<Rightarrow> (e\<lparr>Errors := es\<rparr>, p))"
  by (cases "getTraceID d")
    (simp_all add: ErrorHandlerMiddleware_def getTraceID_Errors slog_emit_Errors JSON'_Errors
      split: prod.splits)

lemma ErrorHandlerMiddleware_last:
  assumes "next c = (c', None)" and "Errors c' \<noteq> []"
  shows "ErrorHandlerMiddleware next c =
     (case ErrorHandlerMiddleware (\<lambda>x. (c'\<lparr>Errors := [last (Errors c')]\<rparr>, None)) c of
        (d, p) \<Rightarrow> (d\<lparr>Errors := Errors c'\<rparr>, p))"
proof -
  let ?c1 = "c'\<lparr>Errors := [last (Errors c')]\<rparr>"
  obtain d p where h1: "handleError ?c1 = (d, p)" by (cases "handleError ?c1")
  have "handleError (c'\<lparr>Errors := Errors c'\<rparr>) =
      (case handleError ?c1 of (d, p) \<Rightarrow> (d\<lparr>Errors := Errors c'\<rparr>, p))"
    using assms(2) by (rule handleError_last)
  with h1 have h: "handleError c' = (d\<lparr>Errors := Errors c'\<rparr>, p)" by simp
  have l1: "ErrorHandlerMiddleware (\<lambda>x. (?c1, None)) c =
     (case handleError ?c1 of
        (d, None) \<Rightarrow> (d, None)
      | (d, Some r) \<Rightarrow> ErrorHandlerMiddleware (\<lambda>x. (d, Some r)) c)"
    using ErrorHandlerMiddleware_link [of "\<lambda>x. (?c1, None)" c ?c1] by simp
  have l2: "ErrorHandlerMiddleware next c =
     (case handleError c' of
        (d, None) \<Rightarrow> (d, None)
      | (d, Some r) \<Rightarrow> ErrorHandlerMiddleware (\<lambda>x. (d, Some r)) c)"
    using ErrorHandlerMiddleware_link [of "next" c c'] assms by simp
  show ?thesis
    unfolding l2 l1 h h1
    by (cases p) (simp_all add: recovery_Errors)
qed

lemma handleError_record:
  assumes "Errors c \<noteq> []"
  shows "slog_Default (fst (handleError c)) =
     slog_Default c @
       [case errors_As (last (Errors c)) of
          Some a \<Rightarrow>
            \<lparr>level = LevelWarn, group = ''error_handler'', msg = ''application error'',
             attrs = [(''code'', AString (Code a)), (''message'', AString (Message a)),
                      (''statusCode'', AInt (StatusCode a))]\<rparr>
        | None \<Rightarrow>
            \<lparr>level = LevelError, group = ''error_handler'', msg = ''unknown error'',
             attrs = [(''error'', AString (Error_text (last (Errors c))))]\<rparr>]"
  using assms
  by (cases "errors_As (last (Errors c))"; cases "getTraceID c")
    (simp_all add: handleError_nonempty JSON'_frame)

lemma recovery_record:
  "slog_Default (fst (ErrorHandlerMiddleware (\<lambda>x. (d, Some r)) c)) =
     slog_Default d @ [\<lparr>level = LevelError, group = ''error_handler'',
                          msg = ''panic recovered'', attrs = [(''panic'', r)]\<rparr>]"
  by (cases "getTraceID d") (simp_all add: ErrorHandlerMiddleware_def JSON'_frame)

lemma rendered_unknown:
  assumes "next c = (c', None)" and "Errors c' \<noteq> []"
    and "errors_As (last (Errors c')) = None" and "getTraceID c' = Inr t"
  shows "ErrorHandlerMiddleware next c =
     JSON' 500
       (marshal \<lparr>Error = ''INTERNAL_ERROR'', Message' = ''An unexpected error occurred'',
                 StatusCode' = 500, TraceID = t, Details' = []\<rparr>)
       (slog_emit LevelError ''error_handler'' ''unknown error''
          [(''error'', AString (Error_text (last (Errors c'))))] c')"
proof -
  have "handleError c' =
     JSON' 500
       (marshal \<lparr>Error = ''INTERNAL_ERROR'', Message' = ''An unexpected error occurred'',
                 StatusCode' = 500, TraceID = t, Details' = []\<rparr>)
       (slog_emit LevelError ''error_handler'' ''unknown error''
          [(''error'', AString (Error_text (last (Errors c'))))] c')"
    using handleError_unknown [OF assms(2) assms(3) assms(4)]
    by (simp add: StatusInternalServerError_def)
  moreover from this have "snd (handleError c') = None" by (simp add: JSON'_500)
  ultimately show ?thesis
    using returned_with_errors [of "next" c c'] assms(1,2) by simp
qed

lemma rendered_app:
  assumes "next c = (c', None)" and "Errors c' \<noteq> []"
    and "errors_As (last (Errors c')) = Some a" and "getTraceID c' = Inr t"
    and "\<not> written c'"
    and "200 \<le> StatusCode a" and "StatusCode a \<le> 999" and "StatusCode a \<notin> {204, 304}"
  shows "ErrorHandlerMiddleware next c =
     ((writeContentType c')\<lparr>
         slog_Default := slog_Default c' @
           [\<lparr>level = LevelWarn, group = ''error_handler'', msg = ''application error'',
             attrs = [(''code'', AString (Code a)), (''message'', AString (Message a)),
                      (''statusCode'', AInt (StatusCode a))]\<rparr>],
         status := StatusCode a, written := True,
         body := body c' @ [marshal \<lparr>Error = Code a, Message' = Message a,
                              StatusCode' = StatusCode a, TraceID = t,
                              Details' = Details a\<rparr>]\<rparr>, None)"
proof -
  let ?c1 = "slog_emit LevelWarn ''error_handler'' ''application error''
          [(''code'', AString (Code a)), (''message'', AString (Message a)),
           (''statusCode'', AInt (StatusCode a))] c'"
  let ?env = "marshal \<lparr>Error = Code a, Message' = Message a, StatusCode' = StatusCode a,
                 TraceID = t, Details' = Details a\<rparr>"
  have h: "handleError c' = JSON' (StatusCode a) ?env ?c1"
    by (rule handleError_app [OF assms(2) assms(3) assms(4)])
  have j: "JSON' (StatusCode a) ?env ?c1 =
     ((writeContentType ?c1)\<lparr>status := StatusCode a, written := True,
        body := body ?c1 @ [?env]\<rparr>, None)"
    using assms(5,6,7,8) by (intro JSON'_sendable) simp_all
  from h j have "snd (handleError c') = None" by simp
  with assms(1,2) have "ErrorHandlerMiddleware next c = handleError c'"
    using returned_with_errors [of "next" c c'] by simp
  with h j show ?thesis
    by (simp add: slog_emit_def writeContentType_def split: option.splits)
qed

section \<open>Several errors, or none (claim C8)\<close>

text \<open>
  Claim C8. Of the errors a request has recorded, only the last one determines what is
  logged and rendered. For \<^verbatim>\<open>handleError\<close>: handling the errors \<open>es\<close> is handling the
  last of them alone (the list itself apart, which the function does not change). For
  the middleware, when the rest of the chain returns with errors recorded: its result is
  the one for the last error alone; the record it logs first names the last error; and,
  where a response can still be set (nothing written, a trace identifier \<open>t\<close> to read),
  the response is the envelope of the last error: \<^verbatim>\<open>INTERNAL_ERROR\<close> with 500 if it is no
  \<^verbatim>\<open>AppError\<close>, else its own code, message, status and details if its status is one gin
  can send with a body. And when the rest of the chain returns without a panic and with
  no error recorded, the middleware returns the context exactly as the handler left it,
  the status included.
\<close>

theorem C8_last_error_wins:
  "(es \<noteq> [] \<longrightarrow>
      handleError (c0\<lparr>Errors := es\<rparr>) =
        (case handleError (c0\<lparr>Errors := [last es]\<rparr>) of (d, p) \<Rightarrow> (d\<lparr>Errors := es\<rparr>, p)))
   \<and> (next c = (c', None) \<and> Errors c' \<noteq> [] \<longrightarrow>
        ErrorHandlerMiddleware next c =
          (case ErrorHandlerMiddleware (\<lambda>x. (c'\<lparr>Errors := [last (Errors c')]\<rparr>, None)) c of
             (d, p) \<Rightarrow> (d\<lparr>Errors := Errors c'\<rparr>, p))
      \<and> (\<exists>rest. slog_Default (fst (ErrorHandlerMiddleware next c)) =
            slog_Default c' @
              (case errors_As (last (Errors c')) of
                 Some a \<Rightarrow>
                   \<lparr>level = LevelWarn, group = ''error_handler'', msg = ''application error'',
                    attrs = [(''code'', AString (Code a)), (''message'', AString (Message a)),
                             (''statusCode'', AInt (StatusCode a))]\<rparr>
               | None \<Rightarrow>
                   \<lparr>level = LevelError, group = ''error_handler'', msg = ''unknown error'',
                    attrs = [(''error'', AString (Error_text (last (Errors c'))))]\<rparr>) # rest)
      \<and> (\<not> written c' \<and> getTraceID c' = Inr t \<longrightarrow>
           (errors_As (last (Errors c')) = None \<longrightarrow>
              status (fst (ErrorHandlerMiddleware next c)) = 500
            \<and> body (fst (ErrorHandlerMiddleware next c)) =
                body c' @ [marshal \<lparr>Error = ''INTERNAL_ERROR'',
                                     Message' = ''An unexpected error occurred'',
                                     StatusCode' = 500, TraceID = t, Details' = []\<rparr>])
         \<and> (\<forall>a. errors_As (last (Errors c')) = Some a
                 \<and> 200 \<le> StatusCode a \<and> StatusCode a \<le> 999 \<and> StatusCode a \<notin> {204, 304} \<longrightarrow>
              status (fst (ErrorHandlerMiddleware next c)) = StatusCode a
            \<and> body (fst (ErrorHandlerMiddleware next c)) =
                body c' @ [marshal \<lparr>Error = Code a, Message' = Message a,
                                     StatusCode' = StatusCode a, TraceID = t,
                                     Details' = Details a\<rparr>])))
   \<and> (next c = (c', None) \<and> Errors c' = [] \<longrightarrow> ErrorHandlerMiddleware next c = (c', None))"
proof (intro conjI impI allI)
  assume "es \<noteq> []"
  then show "handleError (c0\<lparr>Errors := es\<rparr>) =
        (case handleError (c0\<lparr>Errors := [last es]\<rparr>) of (d, p) \<Rightarrow> (d\<lparr>Errors := es\<rparr>, p))"
    by (rule handleError_last)
next
  assume a: "next c = (c', None) \<and> Errors c' \<noteq> []"
  then show "ErrorHandlerMiddleware next c =
          (case ErrorHandlerMiddleware (\<lambda>x. (c'\<lparr>Errors := [last (Errors c')]\<rparr>, None)) c of
             (d, p) \<Rightarrow> (d\<lparr>Errors := Errors c'\<rparr>, p))"
    using ErrorHandlerMiddleware_last [of "next" c c'] by simp
next
  assume a: "next c = (c', None) \<and> Errors c' \<noteq> []"
  let ?rec = "case errors_As (last (Errors c')) of
                 Some a \<Rightarrow>
                   \<lparr>level = LevelWarn, group = ''error_handler'', msg = ''application error'',
                    attrs = [(''code'', AString (Code a)), (''message'', AString (Message a)),
                             (''statusCode'', AInt (StatusCode a))]\<rparr>
               | None \<Rightarrow>
                   \<lparr>level = LevelError, group = ''error_handler'', msg = ''unknown error'',
                    attrs = [(''error'', AString (Error_text (last (Errors c'))))]\<rparr>"
  obtain d p where h: "handleError c' = (d, p)" by (cases "handleError c'")
  with a handleError_record [of c'] have d: "slog_Default d = slog_Default c' @ [?rec]"
    by simp
  from a h have l: "ErrorHandlerMiddleware next c =
      (case p of None \<Rightarrow> (d, None)
       | Some r \<Rightarrow> ErrorHandlerMiddleware (\<lambda>x. (d, Some r)) c)"
    using ErrorHandlerMiddleware_link [of "next" c c'] by simp
  show "\<exists>rest. slog_Default (fst (ErrorHandlerMiddleware next c)) = slog_Default c' @ ?rec # rest"
  proof (cases p)
    case None
    with l d show ?thesis by simp
  next
    case (Some r)
    with l d recovery_record [of d r c] show ?thesis by simp
  qed
next
  assume a: "next c = (c', None) \<and> Errors c' \<noteq> []"
    and b: "\<not> written c' \<and> getTraceID c' = Inr t"
    and e: "errors_As (last (Errors c')) = None"
  then have r: "ErrorHandlerMiddleware next c =
     JSON' 500
       (marshal \<lparr>Error = ''INTERNAL_ERROR'', Message' = ''An unexpected error occurred'',
                 StatusCode' = 500, TraceID = t, Details' = []\<rparr>)
       (slog_emit LevelError ''error_handler'' ''unknown error''
          [(''error'', AString (Error_text (last (Errors c'))))] c')"
    using rendered_unknown [of "next" c c' t] by simp
  from b show "status (fst (ErrorHandlerMiddleware next c)) = 500"
    unfolding r by (simp add: JSON'_500)
  show "body (fst (ErrorHandlerMiddleware next c)) =
                body c' @ [marshal \<lparr>Error = ''INTERNAL_ERROR'',
                                     Message' = ''An unexpected error occurred'',
                                     StatusCode' = 500, TraceID = t, Details' = []\<rparr>]"
    unfolding r by (simp add: JSON'_500)
next
  fix a
  assume "next c = (c', None) \<and> Errors c' \<noteq> []"
    and "\<not> written c' \<and> getTraceID c' = Inr t"
    and "errors_As (last (Errors c')) = Some a
                 \<and> 200 \<le> StatusCode a \<and> StatusCode a \<le> 999 \<and> StatusCode a \<notin> {204, 304}"
  then have r: "ErrorHandlerMiddleware next c =
     ((writeContentType c')\<lparr>
         slog_Default := slog_Default c' @
           [\<lparr>level = LevelWarn, group = ''error_handler'', msg = ''application error'',
             attrs = [(''code'', AString (Code a)), (''message'', AString (Message a)),
                      (''statusCode'', AInt (StatusCode a))]\<rparr>],
         status := StatusCode a, written := True,
         body := body c' @ [marshal \<lparr>Error = Code a, Message' = Message a,
                              StatusCode' = StatusCode a, TraceID = t,
                              Details' = Details a\<rparr>]\<rparr>, None)"
    using rendered_app [of "next" c c' a t] by simp
  show "status (fst (ErrorHandlerMiddleware next c)) = StatusCode a"
    unfolding r by simp
  show "body (fst (ErrorHandlerMiddleware next c)) =
                body c' @ [marshal \<lparr>Error = Code a, Message' = Message a,
                                     StatusCode' = StatusCode a, TraceID = t,
                                     Details' = Details a\<rparr>]"
    unfolding r by simp
next
  assume "next c = (c', None) \<and> Errors c' = []"
  then show "ErrorHandlerMiddleware next c = (c', None)"
    by (simp add: ErrorHandlerMiddleware_def)
qed

text \<open>
  C8 at concrete inputs: a handler that records a \<^verbatim>\<open>NOT_FOUND\<close> and then a \<^verbatim>\<open>CONFLICT\<close>
  error, of which the second decides (409); and the handler of \<^verbatim>\<open>/api/v1/status\<close>, whose
  answer passes through untouched.
\<close>

theorem C8_last_error_wins_witness:
  "two_errors_handler traced_Context =
     (traced_Context\<lparr>Errors := [AppErr (NewNotFoundError ''widget''),
                                 AppErr (NewConflictError ''name taken'')]\<rparr>, None)
   \<and> status (fst (ErrorHandlerMiddleware two_errors_handler traced_Context)) = 409
   \<and> body (fst (ErrorHandlerMiddleware two_errors_handler traced_Context)) =
       [JObject [(''error'', JString ''CONFLICT''), (''message'', JString ''name taken''),
                 (''statusCode'', JNumber 409), (''traceId'', JString ''abc123'')]]
   \<and> snd (status_handler traced_Context) = None
   \<and> Errors (fst (status_handler traced_Context)) = []
   \<and> ErrorHandlerMiddleware status_handler traced_Context = status_handler traced_Context
   \<and> status (fst (ErrorHandlerMiddleware status_handler traced_Context)) = 200"
proof -
  let ?es = "[AppErr (NewNotFoundError ''widget''), AppErr (NewConflictError ''name taken'')]"
  let ?c2 = "traced_Context\<lparr>Errors := ?es\<rparr>"
  let ?a = "NewConflictError ''name taken''"
  let ?c' = "fst (status_handler traced_Context)"
  have 1: "two_errors_handler traced_Context = (?c2, None)"
    by (simp add: two_errors_handler_def Error'_def traced_Context_eq)
  have 2: "Errors ?c2 \<noteq> []" "\<not> written ?c2" "getTraceID ?c2 = Inr ''abc123''"
    by (simp_all add: traced_Context_eq getTraceID_def)
  have 3: "errors_As (last (Errors ?c2)) = Some ?a" by simp
  have 4: "200 \<le> StatusCode ?a" "StatusCode ?a \<le> 999" "StatusCode ?a \<notin> {204, 304}"
    "StatusCode ?a = 409"
    by (simp_all add: factory_defs http_status_defs)
  have 9: "snd (status_handler traced_Context) = None"
    by (simp add: run_defs traced_Context_eq)
  have 5: "status_handler traced_Context = (?c', None)"
    using 9 by (simp add: prod_eq_iff)
  have 6: "Errors ?c' = []" "status ?c' = 200"
    by (simp_all add: run_defs traced_Context_eq)
  have 7: "marshal \<lparr>Error = Code ?a, Message' = Message ?a, StatusCode' = StatusCode ?a,
                    TraceID = ''abc123'', Details' = Details ?a\<rparr> =
        JObject [(''error'', JString ''CONFLICT''), (''message'', JString ''name taken''),
                 (''statusCode'', JNumber 409), (''traceId'', JString ''abc123'')]"
    by (simp add: marshal_def factory_defs http_status_defs)
  have 8: "body ?c2 = []" by (simp add: traced_Context_eq)
  note T = C8_last_error_wins [of ?es traced_Context two_errors_handler traced_Context ?c2
      "''abc123''"]
  have P: "two_errors_handler traced_Context = (?c2, None) \<and> Errors ?c2 \<noteq> []"
    using 1 2 by simp
  have Q: "\<not> written ?c2 \<and> getTraceID ?c2 = Inr ''abc123''"
    using 2 by simp
  have S: "errors_As (last (Errors ?c2)) = Some ?a
      \<and> 200 \<le> StatusCode ?a \<and> StatusCode ?a \<le> 999 \<and> StatusCode ?a \<notin> {204, 304}"
    using 3 4 by simp
  note M = T [THEN conjunct2, THEN conjunct1, THEN mp, OF P]
  note R = M [THEN conjunct2, THEN conjunct2, THEN mp, OF Q]
  note A = R [THEN conjunct2, THEN spec, of ?a, THEN mp, OF S]
  note U = C8_last_error_wins [of ?es traced_Context status_handler traced_Context ?c'
      "''abc123''"]
  have V: "status_handler traced_Context = (?c', None) \<and> Errors ?c' = []"
    using 5 6 by simp
  note B = U [THEN conjunct2, THEN conjunct2, THEN mp, OF V]
  from A 7 8 4 have A': "status (fst (ErrorHandlerMiddleware two_errors_handler traced_Context)) = 409"
    "body (fst (ErrorHandlerMiddleware two_errors_handler traced_Context)) =
       [JObject [(''error'', JString ''CONFLICT''), (''message'', JString ''name taken''),
                 (''statusCode'', JNumber 409), (''traceId'', JString ''abc123'')]]"
    by simp_all
  from B 9 have B1: "ErrorHandlerMiddleware status_handler traced_Context = status_handler traced_Context"
    by (simp add: prod_eq_iff)
  from B1 6 have B2: "status (fst (ErrorHandlerMiddleware status_handler traced_Context)) = 200"
    by simp
  from 1 A' B1 B2 6 9 show ?thesis by simp
qed

section \<open>The trace identifier in the context (claim C10)\<close>

lemma requestLoggingMiddleware_link:
  "requestLoggingMiddleware clk next c =
     (case next (before_Next clk c) of
        (c3, Some v) \<Rightarrow> (c3, Some v)
      | (c3, None) \<Rightarrow>
          (slog_emit LevelInfo [] ''HTTP request''
             [(''method'', AString (Method c3)),
              (''path'', AString (Path c3)),
              (''status'', AInt (status c3)),
              (''duration_ms'', AInt (int (Since clk div 1000000))),
              (''trace_id'', AString (traceID_of clk c)),
              (''ip'', AString (ClientIP c3))] c3, None))"
  by (simp add: requestLoggingMiddleware_def before_Next_def traceID_of_def Let_def
      split: prod.splits option.splits)

lemma randomString_length: "length (randomString now n) = n"
proof -
  have "length (randomString_loop now is) = length is" for "is"
    by (induction "is") simp_all
  then show ?thesis by (simp add: randomString_def)
qed

lemma traceID_of_nonempty: "traceID_of clk c \<noteq> []"
  using randomString_length [of "UnixNano clk" 16]
  by (auto simp: traceID_of_def)

lemma before_Next_stored:
  "Keys (before_Next clk c) ''traceId'' = Some (AString (traceID_of clk c))"
  "RespHeader (before_Next clk c) (CanonicalMIMEHeaderKey ''X-Trace-ID'') =
     Some (traceID_of clk c)"
  using traceID_of_nonempty [of clk c]
  by (simp_all add: before_Next_def Header_def Set'_def)

lemma requestLoggingMiddleware_Keys:
  "Keys (fst (requestLoggingMiddleware clk h c)) = Keys (fst (h (before_Next clk c)))"
  by (simp add: requestLoggingMiddleware_link split: prod.splits option.splits)

lemma recovery_contained:
  assumes "getTraceID d = Inr t"
  shows "snd (ErrorHandlerMiddleware (\<lambda>x. (d, Some r)) c) = None"
  using assms
  by (simp add: ErrorHandlerMiddleware_def JSON'_500 StatusInternalServerError_def Let_def)

lemma ErrorHandlerMiddleware_contained:
  assumes "getTraceID (fst (next c)) = Inr t"
  shows "snd (ErrorHandlerMiddleware next c) = None"
proof -
  obtain c' p where n: "next c = (c', p)" by (cases "next c")
  with assms have t: "getTraceID c' = Inr t" by simp
  show ?thesis
  proof (cases p)
    case (Some v)
    with n have "ErrorHandlerMiddleware next c = ErrorHandlerMiddleware (\<lambda>x. (c', Some v)) c"
      by (simp add: ErrorHandlerMiddleware_def)
    with t show ?thesis by (simp add: recovery_contained)
  next
    case None
    show ?thesis
    proof (cases "Errors c' = []")
      case True
      with n None show ?thesis by (simp add: ErrorHandlerMiddleware_def)
    next
      case False
      obtain d r where h: "handleError c' = (d, r)" by (cases "handleError c'")
      with handleError_Keys [of c'] have "Keys d = Keys c'" by simp
      with t have d: "getTraceID d = Inr t" by (simp add: getTraceID_Keys [of d c'])
      from n None False h show ?thesis
        using ErrorHandlerMiddleware_link [of "next" c c'] recovery_contained [OF d]
        by (cases r) simp_all
    qed
  qed
qed

text \<open>
  Claim C10. \<^verbatim>\<open>getTraceID\<close> answers with the empty string when the key \<^verbatim>\<open>traceId\<close> is unset
  and with the stored string when it holds one, and panics when it holds anything else.
  An envelope with an empty trace identifier has no member \<^verbatim>\<open>traceId\<close>, so that the
  envelope rendered for a panic carries none when the key is unset. The request logging
  middleware always stores a string under the key before it calls the rest of the chain;
  \<^verbatim>\<open>handleError\<close>, the error middleware and the handler of \<^verbatim>\<open>/api/v1/status\<close> never write
  the key. So for every handler that leaves the key alone, \<^verbatim>\<open>getTraceID\<close> answers with
  that string on the context the error middleware receives, and no panic leaves the
  error middleware.
\<close>

theorem C10_getTraceID:
  "(Keys c ''traceId'' = None \<longrightarrow> getTraceID c = Inr [])
   \<and> (Keys c ''traceId'' = Some (AString s) \<longrightarrow> getTraceID c = Inr s)
   \<and> (Keys c ''traceId'' = Some x \<and> (\<forall>s'. x \<noteq> AString s') \<longrightarrow>
        getTraceID c = Inl (ARuntimeError ''interface conversion: interface {} is not string''))
   \<and> (TraceID r = [] \<longrightarrow> json_member ''traceId'' (marshal r) = None)
   \<and> (next c = (c', Some v) \<and> Keys c' ''traceId'' = None \<and> \<not> written c' \<longrightarrow>
        body (fst (ErrorHandlerMiddleware next c)) =
          body c' @ [JObject [(''error'', JString ''INTERNAL_ERROR''),
                              (''message'', JString ''An unexpected error occurred''),
                              (''statusCode'', JNumber 500)]])
   \<and> requestLoggingMiddleware clk h c =
       (case h (before_Next clk c) of
          (c3, Some v) \<Rightarrow> (c3, Some v)
        | (c3, None) \<Rightarrow>
            (slog_emit LevelInfo [] ''HTTP request''
               [(''method'', AString (Method c3)),
                (''path'', AString (Path c3)),
                (''status'', AInt (status c3)),
                (''duration_ms'', AInt (int (Since clk div 1000000))),
                (''trace_id'', AString (traceID_of clk c)),
                (''ip'', AString (ClientIP c3))] c3, None))
   \<and> Keys (before_Next clk c) ''traceId'' = Some (AString (traceID_of clk c))
   \<and> Keys (fst (handleError c)) = Keys c
   \<and> Keys (fst (ErrorHandlerMiddleware next c)) = Keys (fst (next c))
   \<and> Keys (fst (status_handler c)) = Keys c
   \<and> (Keys (fst (h (before_Next clk c))) ''traceId'' = Keys (before_Next clk c) ''traceId'' \<longrightarrow>
        getTraceID (fst (requestLoggingMiddleware clk h c)) = Inr (traceID_of clk c)
      \<and> snd (ErrorHandlerMiddleware (requestLoggingMiddleware clk h) c) = None)"
proof (intro conjI impI)
  assume "Keys c ''traceId'' = None"
  then show "getTraceID c = Inr []" by (simp add: getTraceID_def)
next
  assume "Keys c ''traceId'' = Some (AString s)"
  then show "getTraceID c = Inr s" by (simp add: getTraceID_def)
next
  assume "Keys c ''traceId'' = Some x \<and> (\<forall>s'. x \<noteq> AString s')"
  then show "getTraceID c = Inl (ARuntimeError ''interface conversion: interface {} is not string'')"
    by (cases x) (simp_all add: getTraceID_def)
next
  assume "TraceID r = []"
  then show "json_member ''traceId'' (marshal r) = None" by (simp add: marshal_members)
next
  assume a: "next c = (c', Some v) \<and> Keys c' ''traceId'' = None \<and> \<not> written c'"
  then have "getTraceID c' = Inr []" by (simp add: getTraceID_def)
  with a recovered [of "next" c c' v "[]"] show "body (fst (ErrorHandlerMiddleware next c)) =
          body c' @ [JObject [(''error'', JString ''INTERNAL_ERROR''),
                              (''message'', JString ''An unexpected error occurred''),
                              (''statusCode'', JNumber 500)]]"
    by (simp add: JSON'_500 StatusInternalServerError_def marshal_def)
next
  show "requestLoggingMiddleware clk h c =
       (case h (before_Next clk c) of
          (c3, Some v) \<Rightarrow> (c3, Some v)
        | (c3, None) \<Rightarrow>
            (slog_emit LevelInfo [] ''HTTP request''
               [(''method'', AString (Method c3)),
                (''path'', AString (Path c3)),
                (''status'', AInt (status c3)),
                (''duration_ms'', AInt (int (Since clk div 1000000))),
                (''trace_id'', AString (traceID_of clk c)),
                (''ip'', AString (ClientIP c3))] c3, None))"
    by (rule requestLoggingMiddleware_link)
next
  show "Keys (before_Next clk c) ''traceId'' = Some (AString (traceID_of clk c))"
    by (rule before_Next_stored)
next
  show "Keys (fst (handleError c)) = Keys c" by (rule handleError_Keys)
next
  show "Keys (fst (ErrorHandlerMiddleware next c)) = Keys (fst (next c))"
    by (rule ErrorHandlerMiddleware_Keys)
next
  show "Keys (fst (status_handler c)) = Keys c"
    by (simp add: status_handler_def JSON'_frame)
next
  assume f: "Keys (fst (h (before_Next clk c))) ''traceId'' = Keys (before_Next clk c) ''traceId''"
  then have "Keys (fst (requestLoggingMiddleware clk h c)) ''traceId'' =
      Some (AString (traceID_of clk c))"
    by (simp add: requestLoggingMiddleware_Keys before_Next_stored)
  then show g: "getTraceID (fst (requestLoggingMiddleware clk h c)) = Inr (traceID_of clk c)"
    by (simp add: getTraceID_def)
  show "snd (ErrorHandlerMiddleware (requestLoggingMiddleware clk h) c) = None"
    using ErrorHandlerMiddleware_contained [of "requestLoggingMiddleware clk h" c] g by simp
qed

text \<open>
  C10 at concrete inputs: the context of a request before the request logging middleware
  has run (key unset), after it has run (the string of the header), with the number 7
  stored under the key, and the chain of both middlewares around a panicking handler.
\<close>

theorem C10_getTraceID_witness:
  "Keys (new_Context plain_Request []) ''traceId'' = None
   \<and> getTraceID (new_Context plain_Request []) = Inr []
   \<and> Keys traced_Context ''traceId'' = Some (AString ''abc123'')
   \<and> getTraceID traced_Context = Inr ''abc123''
   \<and> getTraceID (Set' ''traceId'' (AInt 7) traced_Context) =
       Inl (ARuntimeError ''interface conversion: interface {} is not string'')
   \<and> body (fst (ErrorHandlerMiddleware panicking_handler (new_Context plain_Request []))) =
       [JObject [(''error'', JString ''INTERNAL_ERROR''),
                 (''message'', JString ''An unexpected error occurred''),
                 (''statusCode'', JNumber 500)]]
   \<and> getTraceID (fst (requestLoggingMiddleware sample_Clock panicking_handler
                        (new_Context traced_Request []))) = Inr ''abc123''
   \<and> snd (ErrorHandlerMiddleware (requestLoggingMiddleware sample_Clock panicking_handler)
            (new_Context traced_Request [])) = None"
proof -
  let ?n = "new_Context plain_Request []"
  let ?m = "Set' ''traceId'' (AInt 7) traced_Context"
  let ?r = "\<lparr>Error = ''INTERNAL_ERROR'', Message' = ''An unexpected error occurred'',
            StatusCode' = 500, TraceID = [], Details' = []\<rparr>"
  have 1: "Keys ?n ''traceId'' = None" by (simp add: new_Context_def)
  have 2: "Keys traced_Context ''traceId'' = Some (AString ''abc123'')"
    by (simp add: traced_Context_eq)
  have 3: "Keys ?m ''traceId'' = Some (AInt 7) \<and> (\<forall>s'. AInt 7 \<noteq> AString s')"
    by (simp add: Set'_def)
  have 4: "panicking_handler ?n = (?n, Some (AString ''boom'')) \<and> Keys ?n ''traceId'' = None
      \<and> \<not> written ?n"
    by (simp add: panicking_handler_def new_Context_def)
  have 5: "Keys (fst (panicking_handler (before_Next sample_Clock (new_Context traced_Request []))))
        ''traceId'' = Keys (before_Next sample_Clock (new_Context traced_Request [])) ''traceId''"
    by (simp add: panicking_handler_def)
  have 6: "body ?n = []" by (simp add: new_Context_def)
  note A = C10_getTraceID [of ?n "[]" "AInt 7" ?r panicking_handler ?n "AString ''boom''"
      sample_Clock panicking_handler]
  note B = C10_getTraceID [of traced_Context "''abc123''" "AInt 7" ?r panicking_handler ?n
      "AString ''boom''" sample_Clock panicking_handler]
  note C = C10_getTraceID [of ?m "[]" "AInt 7" ?r panicking_handler ?n "AString ''boom''"
      sample_Clock panicking_handler]
  note D = C10_getTraceID [of "new_Context traced_Request []" "[]" "AInt 7" ?r
      panicking_handler ?n "AString ''boom''" sample_Clock panicking_handler]
  note a1 = A [THEN conjunct1, THEN mp, OF 1]
  note a5 = A [THEN conjunct2, THEN conjunct2, THEN conjunct2, THEN conjunct2, THEN conjunct1,
      THEN mp, OF 4]
  note b2 = B [THEN conjunct2, THEN conjunct1, THEN mp, OF 2]
  note c3 = C [THEN conjunct2, THEN conjunct2, THEN conjunct1, THEN mp, OF 3]
  note d11 = D [THEN conjunct2, THEN conjunct2, THEN conjunct2, THEN conjunct2, THEN conjunct2,
      THEN conjunct2, THEN conjunct2, THEN conjunct2, THEN conjunct2, THEN conjunct2,
      THEN mp, OF 5]
  from a1 a5 b2 c3 d11 1 2 6 show ?thesis
    by (simp add: traceID_of_traced)
qed

section \<open>The record of a request (claim C7)\<close>

lemma before_Next_samples:
  "before_Next sample_Clock (new_Context traced_Request []) = traced_Context"
  "before_Next sample_Clock (new_Context plain_Request []) = fresh_Context"
  by (simp_all add: traced_Context_def fresh_Context_def)

lemma sample_duration: "int (Since sample_Clock div 1000000) = 2"
  by (simp add: sample_Clock_def)

lemmas chain_defs =
  router_def gin_Recovery_def AbortWithStatus_def requestLoggingMiddleware_link
  before_Next_samples

text \<open>
  Claim C7 as stated, on every exit path. In the chain of \<^verbatim>\<open>main\<close> a handler that panics
  leaves no record \<^verbatim>\<open>HTTP request\<close> at all: the panic passes through the request logging
  middleware, and the only record is the one of the error middleware. And for a handler
  that records \<^verbatim>\<open>NewNotFoundError("widget")\<close> the record says status 200, while the response
  gets status 404 from the error middleware afterwards.
\<close>

theorem C7_panic_counterexample:
  "slog_Default (fst (router sample_Clock panicking_handler (new_Context traced_Request []))) =
     [\<lparr>level = LevelError, group = ''error_handler'', msg = ''panic recovered'',
       attrs = [(''panic'', AString ''boom'')]\<rparr>]
   \<and> status (fst (router sample_Clock not_found_handler (new_Context traced_Request []))) = 404
   \<and> slog_Default (fst (router sample_Clock not_found_handler (new_Context traced_Request []))) =
     [\<lparr>level = LevelInfo, group = [], msg = ''HTTP request'',
       attrs = [(''method'', AString ''GET''), (''path'', AString ''/api/v1/widgets/7''),
                (''status'', AInt 200), (''duration_ms'', AInt 2),
                (''trace_id'', AString ''abc123''), (''ip'', AString ''10.0.0.9'')]\<rparr>,
      \<lparr>level = LevelWarn, group = ''error_handler'', msg = ''application error'',
       attrs = [(''code'', AString ''NOT_FOUND''), (''message'', AString ''widget not found''),
                (''statusCode'', AInt 404)]\<rparr>]"
  by (simp add: chain_defs run_defs panicking_handler_def not_found_handler_def
      traceID_of_traced sample_duration traced_Context_eq)

text \<open>
  Claim C7, amended. When the rest of the chain returns to the request logging middleware
  without a panic, leaving the context \<open>c'\<close>, the middleware hands exactly one record to
  the logger, after all records of the chain: level info, message \<^verbatim>\<open>HTTP request\<close>, with
  the method, the path, the status the response writer holds at that moment (the error
  middleware, which runs around this one, may still change it), the duration in whole
  milliseconds, the trace identifier and the client address; it changes nothing else.
  When the rest of the chain panics, the panic passes through the middleware and it logs
  no record.
\<close>

theorem C7_request_logged:
  "(next (before_Next clk c) = (c', None) \<longrightarrow>
      requestLoggingMiddleware clk next c =
        (c'\<lparr>slog_Default := slog_Default c' @
            [\<lparr>level = LevelInfo, group = [], msg = ''HTTP request'',
              attrs = [(''method'', AString (Method c')),
                       (''path'', AString (Path c')),
                       (''status'', AInt (status c')),
                       (''duration_ms'', AInt (int (Since clk div 1000000))),
                       (''trace_id'', AString (traceID_of clk c)),
                       (''ip'', AString (ClientIP c'))]\<rparr>]\<rparr>, None))
   \<and> (next (before_Next clk c) = (c', Some v) \<longrightarrow>
        requestLoggingMiddleware clk next c = (c', Some v))"
  by (simp add: requestLoggingMiddleware_link slog_emit_def)

text \<open>
  C7 at concrete inputs: the handler of \<^verbatim>\<open>/api/v1/status\<close>, which returns, and a handler
  that panics, on the request with the trace header.
\<close>

theorem C7_request_logged_witness:
  "snd (status_handler traced_Context) = None
   \<and> slog_Default (fst (requestLoggingMiddleware sample_Clock status_handler
                        (new_Context traced_Request []))) =
       [\<lparr>level = LevelInfo, group = [], msg = ''HTTP request'',
         attrs = [(''method'', AString ''GET''), (''path'', AString ''/api/v1/widgets/7''),
                  (''status'', AInt 200), (''duration_ms'', AInt 2),
                  (''trace_id'', AString ''abc123''), (''ip'', AString ''10.0.0.9'')]\<rparr>]
   \<and> panicking_handler traced_Context = (traced_Context, Some (AString ''boom''))
   \<and> requestLoggingMiddleware sample_Clock panicking_handler (new_Context traced_Request []) =
       (traced_Context, Some (AString ''boom''))"
proof -
  let ?n = "new_Context traced_Request []"
  let ?c' = "fst (status_handler traced_Context)"
  have 0: "snd (status_handler traced_Context) = None"
    by (simp add: run_defs traced_Context_eq)
  then have 1: "status_handler (before_Next sample_Clock ?n) = (?c', None)"
    by (simp add: before_Next_samples prod_eq_iff)
  have 2: "panicking_handler (before_Next sample_Clock ?n) = (traced_Context, Some (AString ''boom''))"
    by (simp add: before_Next_samples panicking_handler_def)
  have 3: "Method ?c' = ''GET''" "Path ?c' = ''/api/v1/widgets/7''" "status ?c' = 200"
    "ClientIP ?c' = ''10.0.0.9''" "slog_Default ?c' = []"
    by (simp_all add: run_defs traced_Context_eq)
  have 4: "int (Since sample_Clock div 1000000) = 2" by (simp add: sample_Clock_def)
  note A = C7_request_logged [of status_handler sample_Clock ?n ?c' "AString ''boom''",
      THEN conjunct1, THEN mp, OF 1]
  note B = C7_request_logged [of panicking_handler sample_Clock ?n traced_Context
      "AString ''boom''", THEN conjunct2, THEN mp, OF 2]
  from A 3 4 have A': "slog_Default (fst (requestLoggingMiddleware sample_Clock status_handler ?n)) =
       [\<lparr>level = LevelInfo, group = [], msg = ''HTTP request'',
         attrs = [(''method'', AString ''GET''), (''path'', AString ''/api/v1/widgets/7''),
                  (''status'', AInt 200), (''duration_ms'', AInt 2),
                  (''trace_id'', AString ''abc123''), (''ip'', AString ''10.0.0.9'')]\<rparr>]"
    by (simp add: traceID_of_traced)
  from 0 A' B 2 show ?thesis by (simp add: before_Next_samples)
qed

section \<open>Header names and generated identifiers\<close>


















section \<open>What the error middleware adds to the response\<close>







section \<open>The trace identifier of a request (claim C6)\<close>




end
